theory Spec2Isabelle
  imports Complex_Main
begin

section \<open>JavaScript numbers\<close>

text \<open>
  The terrain component computes with JavaScript numbers. A number is modelled as a finite
  real or one of the three special values. An arithmetic operation between finite values
  is exact (the rounding of each intermediate result to a 64-bit double is not modelled);
  every operation that meets a special value follows the IEEE-754 rules JavaScript uses.
  The sign of zero is not modelled: a division of a non-zero value by zero yields the
  infinity of the sign of the numerator.

  The position buffer is a \<open>Float32Array\<close>: \<open>setY\<close> rounds the value it stores to the
  nearest 32-bit float. That rounding is \<open>fround\<close> below. The functions that write to
  the buffer take the rounding as their first argument \<open>store\<close>: \<open>fround\<close> is what the
  program does, \<open>unrounded\<close> is the same code over exact arithmetic.
\<close>

datatype jsnum = Fin real | PInf | NInf | NaN

fun is_finite :: "jsnum \<Rightarrow> bool" where
  "is_finite (Fin a) = True"
| "is_finite PInf = False"
| "is_finite NInf = False"
| "is_finite NaN = False"

fun jneg :: "jsnum \<Rightarrow> jsnum" where
  "jneg (Fin a) = Fin (- a)"
| "jneg PInf = NInf"
| "jneg NInf = PInf"
| "jneg NaN = NaN"

fun jadd :: "jsnum \<Rightarrow> jsnum \<Rightarrow> jsnum" where
  "jadd NaN b = NaN"
| "jadd a NaN = NaN"
| "jadd (Fin a) (Fin b) = Fin (a + b)"
| "jadd PInf NInf = NaN"
| "jadd NInf PInf = NaN"
| "jadd PInf b = PInf"
| "jadd a PInf = PInf"
| "jadd NInf b = NInf"
| "jadd a NInf = NInf"

definition jsub :: "jsnum \<Rightarrow> jsnum \<Rightarrow> jsnum" where
  "jsub a b = jadd a (jneg b)"

fun jmul :: "jsnum \<Rightarrow> jsnum \<Rightarrow> jsnum" where
  "jmul NaN b = NaN"
| "jmul a NaN = NaN"
| "jmul (Fin a) (Fin b) = Fin (a * b)"
| "jmul PInf (Fin b) = (if b = 0 then NaN else if 0 < b then PInf else NInf)"
| "jmul NInf (Fin b) = (if b = 0 then NaN else if 0 < b then NInf else PInf)"
| "jmul (Fin a) PInf = (if a = 0 then NaN else if 0 < a then PInf else NInf)"
| "jmul (Fin a) NInf = (if a = 0 then NaN else if 0 < a then NInf else PInf)"
| "jmul PInf PInf = PInf"
| "jmul PInf NInf = NInf"
| "jmul NInf PInf = NInf"
| "jmul NInf NInf = PInf"

fun jdiv :: "jsnum \<Rightarrow> jsnum \<Rightarrow> jsnum" where
  "jdiv NaN b = NaN"
| "jdiv a NaN = NaN"
| "jdiv (Fin a) (Fin b) =
     (if b = 0 then (if a = 0 then NaN else if 0 < a then PInf else NInf)
      else Fin (a / b))"
| "jdiv (Fin a) PInf = Fin 0"
| "jdiv (Fin a) NInf = Fin 0"
| "jdiv PInf (Fin b) = (if 0 \<le> b then PInf else NInf)"
| "jdiv NInf (Fin b) = (if 0 \<le> b then NInf else PInf)"
| "jdiv PInf PInf = NaN"
| "jdiv PInf NInf = NaN"
| "jdiv NInf PInf = NaN"
| "jdiv NInf NInf = NaN"

text \<open>The comparison \<open>a < b\<close>: false as soon as one side is NaN.\<close>

fun jlt :: "jsnum \<Rightarrow> jsnum \<Rightarrow> bool" where
  "jlt NaN b = False"
| "jlt a NaN = False"
| "jlt (Fin a) (Fin b) = (a < b)"
| "jlt NInf NInf = False"
| "jlt NInf b = True"
| "jlt a NInf = False"
| "jlt PInf b = False"
| "jlt a PInf = True"


text \<open>\<open>Math.sqrt\<close> and \<open>Math.cos\<close>.\<close>

fun jsqrt :: "jsnum \<Rightarrow> jsnum" where
  "jsqrt (Fin a) = (if a < 0 then NaN else Fin (sqrt a))"
| "jsqrt PInf = PInf"
| "jsqrt NInf = NaN"
| "jsqrt NaN = NaN"

fun jcos :: "jsnum \<Rightarrow> jsnum" where
  "jcos (Fin a) = Fin (cos a)"
| "jcos PInf = NaN"
| "jcos NInf = NaN"
| "jcos NaN = NaN"

text \<open>
  Rounding to the nearest 32-bit float, ties to the even significand: 24 significant bits,
  exponents from -126 (below, the spacing stays \<open>2 powi (- 149)\<close>) and infinity from
  \<open>2 ^ 128\<close> on.
\<close>

definition roundTiesToEven :: "real \<Rightarrow> int" where
  "roundTiesToEven q =
     (let f = \<lfloor>q\<rfloor>; r = q - of_int f
      in if r < 1 / 2 then f else if 1 / 2 < r then f + 1 else if even f then f else f + 1)"

definition float32_exponent :: "real \<Rightarrow> int" where
  "float32_exponent x = max \<lfloor>log 2 \<bar>x\<bar>\<rfloor> (- 126)"

fun fround :: "jsnum \<Rightarrow> jsnum" where
  "fround (Fin x) =
     (if x = 0 then Fin 0
      else (let ulp = 2 powi (float32_exponent x - 23);
                r = of_int (roundTiesToEven (x / ulp)) * ulp
            in if 2 ^ 128 \<le> \<bar>r\<bar> then (if 0 < x then PInf else NInf) else Fin r))"
| "fround PInf = PInf"
| "fround NInf = NInf"
| "fround NaN = NaN"

definition unrounded :: "jsnum \<Rightarrow> jsnum" where
  "unrounded a = a"

section \<open>Data model\<close>

text \<open>\<open>THREE.Vector3\<close>; the position attribute of a geometry is a buffer of them.\<close>

record Vector3 =
  vec_x :: jsnum
  vec_y :: jsnum
  vec_z :: jsnum

text \<open>\<open>types.ts\<close>: the brush settings handed to the terrain component.\<close>

datatype BrushDirection = up | down

record BrushSettings =
  size_brush :: jsnum
  strength :: jsnum
  direction :: BrushDirection

text \<open>
  The pointer event: \<open>event.point\<close> is the intersection of the pointer ray with the mesh,
  and may be missing.
\<close>

record ThreeEvent =
  point :: "Vector3 option"

text \<open>
  \<open>THREE.BufferGeometry\<close>: the position attribute (possibly absent) and the vertex
  normals. The normals are what \<open>computeVertexNormals\<close> of three.js derives from the
  positions; that library function is an argument \<open>cvn\<close> of \<open>modifyTerrain\<close> and of
  \<open>generate\<close>, and the section on vertex normals gives the function the specification
  describes. The state of the component is \<open>meshRef.current\<close>, which is null before
  the mesh is mounted.
\<close>

record 'n BufferGeometry =
  position :: "Vector3 list option"
  normal :: 'n

type_synonym 'n meshRef = "'n BufferGeometry option"

text \<open>\<open>App.tsx\<close>: the brush settings the application starts with.\<close>

definition initialBrush :: BrushSettings where
  "initialBrush = \<lparr>size_brush = Fin 5, strength = Fin (1 / 2), direction = up\<rparr>"

definition TERRAIN_SIZE :: jsnum where
  "TERRAIN_SIZE = Fin 100"

definition TERRAIN_SEGMENTS :: nat where
  "TERRAIN_SEGMENTS = 128"

section \<open>The brush stroke: \<open>modifyTerrain\<close>\<close>

definition brushSizeSq :: "BrushSettings \<Rightarrow> jsnum" where
  "brushSizeSq brush = jmul (size_brush brush) (size_brush brush)"

definition distSq :: "Vector3 \<Rightarrow> Vector3 \<Rightarrow> jsnum" where
  "distSq intersectionPoint vertex =
     (let dx = jsub (vec_x vertex) (vec_x intersectionPoint);
          dz = jsub (vec_z vertex) (vec_z intersectionPoint)
      in jadd (jmul dx dx) (jmul dz dz))"

definition falloff :: "BrushSettings \<Rightarrow> jsnum \<Rightarrow> jsnum" where
  "falloff brush dSq =
     jdiv (jadd (jcos (jmul (jdiv (jsqrt dSq) (size_brush brush)) (Fin pi))) (Fin 1)) (Fin 2)"

definition displacement :: "BrushSettings \<Rightarrow> jsnum \<Rightarrow> jsnum" where
  "displacement brush dSq =
     jmul (jmul (strength brush) (falloff brush dSq))
          (if direction brush = up then Fin 1 else Fin (- 1))"

text \<open>One pass of the body of the loop over the position buffer, at index \<open>i\<close>.\<close>

definition brushStep ::
  "(jsnum \<Rightarrow> jsnum) \<Rightarrow> BrushSettings \<Rightarrow> Vector3 \<Rightarrow> nat \<Rightarrow> Vector3 list \<Rightarrow> Vector3 list" where
  "brushStep store brush intersectionPoint i positions =
     (let vertex = positions ! i;
          dSq = distSq intersectionPoint vertex
      in if jlt dSq (brushSizeSq brush)
         then (let currentY = vec_y (positions ! i)
               in positions[i := (positions ! i)\<lparr>vec_y := store (jadd currentY (displacement brush dSq))\<rparr>])
         else positions)"

function brushLoop ::
  "(jsnum \<Rightarrow> jsnum) \<Rightarrow> BrushSettings \<Rightarrow> Vector3 \<Rightarrow> nat \<Rightarrow> Vector3 list \<Rightarrow> Vector3 list" where
  "brushLoop store brush intersectionPoint i positions =
     (if i < length positions
      then brushLoop store brush intersectionPoint (i + 1) (brushStep store brush intersectionPoint i positions)
      else positions)"
  by pat_completeness auto
termination
  by (relation "measure (\<lambda>(store, brush, p, i, positions). length positions - i)")
     (auto simp: brushStep_def Let_def)

text \<open>
  What one pass of the loop body does to the vertex it visits; \<open>brushLoop\<close> is shown
  below to apply it to every vertex of the buffer.
\<close>

definition brushVertex :: "(jsnum \<Rightarrow> jsnum) \<Rightarrow> BrushSettings \<Rightarrow> Vector3 \<Rightarrow> Vector3 \<Rightarrow> Vector3" where
  "brushVertex store brush p v =
     (if jlt (distSq p v) (brushSizeSq brush)
      then v\<lparr>vec_y := store (jadd (vec_y v) (displacement brush (distSq p v)))\<rparr>
      else v)"

definition modifyTerrain ::
  "(jsnum \<Rightarrow> jsnum) \<Rightarrow> (Vector3 list \<Rightarrow> 'n) \<Rightarrow> BrushSettings \<Rightarrow> ThreeEvent \<Rightarrow> 'n meshRef \<Rightarrow> 'n meshRef" where
  "modifyTerrain store cvn brush event meshRef =
     (case meshRef of
        None \<Rightarrow> meshRef
      | Some geom \<Rightarrow>
          (case point event of
             None \<Rightarrow> meshRef
           | Some intersectionPoint \<Rightarrow>
               (case position geom of
                  None \<Rightarrow> meshRef
                | Some positions \<Rightarrow>
                    (let positions' = brushLoop store brush intersectionPoint 0 positions
                     in Some (geom\<lparr>position := Some positions', normal := cvn positions'\<rparr>)))))"

text \<open>The position buffer of a state (empty when there is no mesh or no attribute).\<close>

definition positionsOf :: "'n meshRef \<Rightarrow> Vector3 list" where
  "positionsOf meshRef =
     (case meshRef of
        None \<Rightarrow> []
      | Some geom \<Rightarrow> (case position geom of None \<Rightarrow> [] | Some positions \<Rightarrow> positions))"

text \<open>A sequence of pointer events, each with the brush settings current at that time.\<close>

fun strokes ::
  "(jsnum \<Rightarrow> jsnum) \<Rightarrow> (Vector3 list \<Rightarrow> 'n) \<Rightarrow> (BrushSettings \<times> ThreeEvent) list \<Rightarrow> 'n meshRef \<Rightarrow> 'n meshRef" where
  "strokes store cvn [] meshRef = meshRef"
| "strokes store cvn ((brush, event) # rest) meshRef =
     strokes store cvn rest (modifyTerrain store cvn brush event meshRef)"

section \<open>Terrain generation: \<open>geometry\<close>\<close>

text \<open>
  Modelled from the spec: the plane built by \<open>new THREE.PlaneGeometry(size, size, segments,
  segments)\<close> and laid flat by \<open>rotateX(-Math.PI / 2)\<close> is three.js code and not part of the
  repository. Following the spec it is a regular lattice of \<open>(segments + 1) \<times> (segments + 1)\<close>
  vertices spanning \<open>size \<times> size\<close>, centred at the origin, lying in the horizontal plane,
  the vertex of row \<open>r\<close> and column \<open>c\<close> having the flat index \<open>r * (segments + 1) + c\<close>.
\<close>

definition PlaneGeometry :: "jsnum \<Rightarrow> nat \<Rightarrow> Vector3 list" where
  "PlaneGeometry size_p segments =
     map (\<lambda>i. let row = i div (segments + 1);
                  col = i mod (segments + 1);
                  segment_width = jdiv size_p (Fin (real segments));
                  size_half = jdiv size_p (Fin 2)
              in \<lparr>vec_x = jsub (jmul (Fin (real col)) segment_width) size_half,
                  vec_y = Fin 0,
                  vec_z = jsub (jmul (Fin (real row)) segment_width) size_half\<rparr>)
         [0 ..< (segments + 1) * (segments + 1)]"

definition noiseStep ::
  "(jsnum \<Rightarrow> jsnum) \<Rightarrow> (jsnum \<Rightarrow> jsnum \<Rightarrow> jsnum) \<Rightarrow> nat \<Rightarrow> Vector3 list \<Rightarrow> Vector3 list" where
  "noiseStep store noise2D i positions =
     (let vertex = positions ! i;
          noiseVal = noise2D (jdiv (vec_x vertex) (Fin 40)) (jdiv (vec_z vertex) (Fin 40))
      in positions[i := (positions ! i)\<lparr>vec_y := store (jmul noiseVal (Fin 5))\<rparr>])"

function noiseLoop ::
  "(jsnum \<Rightarrow> jsnum) \<Rightarrow> (jsnum \<Rightarrow> jsnum \<Rightarrow> jsnum) \<Rightarrow> nat \<Rightarrow> Vector3 list \<Rightarrow> Vector3 list" where
  "noiseLoop store noise2D i positions =
     (if i < length positions
      then noiseLoop store noise2D (i + 1) (noiseStep store noise2D i positions)
      else positions)"
  by pat_completeness auto
termination
  by (relation "measure (\<lambda>(store, noise2D, i, positions). length positions - i)")
     (auto simp: noiseStep_def Let_def)


text \<open>
  The body of the \<open>geometry\<close> memo for a plane of the given extent and resolution, and the
  memo itself at the constants of the component. \<open>noise2D\<close> is the function returned by
  \<open>createNoise2D()\<close> of the simplex-noise library, a parameter of the model.
\<close>

definition generate ::
  "(jsnum \<Rightarrow> jsnum) \<Rightarrow> (Vector3 list \<Rightarrow> 'n) \<Rightarrow> (jsnum \<Rightarrow> jsnum \<Rightarrow> jsnum) \<Rightarrow> jsnum \<Rightarrow> nat
     \<Rightarrow> 'n BufferGeometry" where
  "generate store cvn noise2D size_p segments =
     (let positions = noiseLoop store noise2D 0 (PlaneGeometry size_p segments)
      in \<lparr>position = Some positions, normal = cvn positions\<rparr>)"

definition geometry ::
  "(jsnum \<Rightarrow> jsnum) \<Rightarrow> (Vector3 list \<Rightarrow> 'n) \<Rightarrow> (jsnum \<Rightarrow> jsnum \<Rightarrow> jsnum) \<Rightarrow> 'n BufferGeometry" where
  "geometry store cvn noise2D = generate store cvn noise2D TERRAIN_SIZE TERRAIN_SEGMENTS"

section \<open>Vertex normals\<close>











section \<open>Facts about the numbers\<close>

lemma jlt_PInf_left [simp]: "jlt PInf b = False"
  by (cases b) simp_all

lemma jlt_NaN_right [simp]: "jlt a NaN = False"
  by (cases a) simp_all

lemma jmul_self_cases:
  "jmul a a = NaN \<or> jmul a a = PInf \<or> (\<exists>r. 0 \<le> r \<and> jmul a a = Fin r)"
  by (cases a) simp_all

lemma jadd_nonneg_cases:
  assumes "a = NaN \<or> a = PInf \<or> (\<exists>r. 0 \<le> r \<and> a = Fin r)"
    and "b = NaN \<or> b = PInf \<or> (\<exists>r. 0 \<le> r \<and> b = Fin r)"
  shows "jadd a b = NaN \<or> jadd a b = PInf \<or> (\<exists>r. 0 \<le> r \<and> jadd a b = Fin r)"
  using assms by auto

lemma jadd_right_commute: "jadd (jadd h a) b = jadd (jadd h b) a"
  by (cases h; cases a; cases b) simp_all




lemma sqrt_25_4: "sqrt (25 / 4) = 5 / 2"
  by (rule real_sqrt_unique) (simp_all add: power2_eq_square)




subsection \<open>Rounding to 32-bit floats\<close>

lemma roundTiesToEven_near:
  assumes "\<bar>q - of_int n\<bar> < 1 / 2"
  shows "roundTiesToEven q = n"
proof (cases "of_int n \<le> q")
  case True
  then have "\<lfloor>q\<rfloor> = n" using assms by (intro floor_unique) auto
  then show ?thesis using assms True by (simp add: roundTiesToEven_def Let_def)
next
  case False
  then have "\<lfloor>q\<rfloor> = n - 1" using assms by (intro floor_unique) auto
  then show ?thesis using assms False by (simp add: roundTiesToEven_def Let_def)
qed

lemma float32_exponent_eq:
  assumes "2 powi e \<le> \<bar>x\<bar>" and "\<bar>x\<bar> < 2 powi (e + 1)" and "- 126 \<le> e"
  shows "float32_exponent x = e"
proof -
  have pos: "0 < \<bar>x\<bar>"
    using assms(1) zero_less_power_int [of "2::real" e] by linarith
  have lo: "(2::real) powr (of_int e) = 2 powi e"
    by (simp add: powr_real_of_int')
  have hi: "(2::real) powr (of_int e + 1) = 2 powi (e + 1)"
    using powr_real_of_int' [of 2 "e + 1"] by simp
  have "\<lfloor>log 2 \<bar>x\<bar>\<rfloor> = e"
    using assms(1,2) pos by (subst floor_log_eq_powr_iff) (simp_all add: lo hi)
  then show ?thesis using assms(3) by (simp add: float32_exponent_def)
qed

lemma fround_normal:
  assumes "2 powi e \<le> \<bar>x\<bar>" and "\<bar>x\<bar> < 2 powi (e + 1)" and "- 126 \<le> e"
    and "\<bar>x / 2 powi (e - 23) - of_int n\<bar> < 1 / 2"
    and "\<bar>of_int n * 2 powi (e - 23)\<bar> < (2::real) ^ 128"
  shows "fround (Fin x) = Fin (of_int n * 2 powi (e - 23))"
proof -
  have "0 < \<bar>x\<bar>"
    using assms(1) zero_less_power_int [of "2::real" e] by linarith
  then have "x \<noteq> 0" by simp
  then show ?thesis
    using assms(5) by (simp add: float32_exponent_eq [OF assms(1-3)] roundTiesToEven_near [OF assms(4)] Let_def)
qed

lemma fround_half: "fround (Fin (1 / 2)) = Fin (1 / 2)"
  using fround_normal [of "- 1" "1 / 2" "2 ^ 23"] by (simp add: power_int_minus)

lemma fround_quarter: "fround (Fin (1 / 4)) = Fin (1 / 4)"
  using fround_normal [of "- 2" "1 / 4" "2 ^ 23"] by (simp add: power_int_minus)





declare fround.simps(1) [simp del]

section \<open>The loops visit every vertex once\<close>

text \<open>
  Both loops run an index over the buffer and rewrite the vertex under it. After \<open>i\<close>
  passes the first \<open>i\<close> vertices are done and the rest are still to come, so a full run
  is a \<open>map\<close> over the buffer.
\<close>

declare brushLoop.simps [simp del]
declare noiseLoop.simps [simp del]

lemma brushStep_update:
  "i < length ps \<Longrightarrow> brushStep store b p i ps = ps[i := brushVertex store b p (ps ! i)]"
  by (simp add: brushStep_def brushVertex_def Let_def)

lemma brushLoop_take_drop:
  "brushLoop store b p i ps = take i ps @ map (brushVertex store b p) (drop i ps)"
proof (induction store b p i ps rule: brushLoop.induct)
  case (1 store b p i ps)
  show ?case
  proof (cases "i < length ps")
    case True
    let ?ps' = "brushStep store b p i ps"
    have ps': "?ps' = ps[i := brushVertex store b p (ps ! i)]"
      using True by (rule brushStep_update)
    have "brushLoop store b p i ps = brushLoop store b p (i + 1) ?ps'"
      using True by (subst brushLoop.simps) simp
    also have "\<dots> = take (i + 1) ?ps' @ map (brushVertex store b p) (drop (i + 1) ?ps')"
      using 1 True by simp
    also have "take (i + 1) ?ps' = take i ps @ [brushVertex store b p (ps ! i)]"
      using True by (simp add: ps' take_Suc_conv_app_nth)
    also have "drop (i + 1) ?ps' = drop (Suc i) ps"
      by (simp add: ps')
    finally show ?thesis
      using True by (simp add: Cons_nth_drop_Suc [symmetric])
  next
    case False
    then show ?thesis by (subst brushLoop.simps) simp
  qed
qed

lemma brushLoop_map: "brushLoop store b p 0 ps = map (brushVertex store b p) ps"
  by (simp add: brushLoop_take_drop)




lemma positionsOf_Some:
  "positionsOf (Some \<lparr>position = Some ps, normal = n\<rparr>) = ps"
  by (simp add: positionsOf_def)

lemma positionsOf_modifyTerrain:
  "positionsOf (modifyTerrain store cvn b ev st) =
     (case point ev of None \<Rightarrow> positionsOf st
      | Some p \<Rightarrow> map (brushVertex store b p) (positionsOf st))"
  by (simp add: positionsOf_def modifyTerrain_def brushLoop_map Let_def split: option.splits)

section \<open>The footprint test and the falloff\<close>

lemma distSq_cases:
  "distSq p v = NaN \<or> distSq p v = PInf \<or> (\<exists>d. 0 \<le> d \<and> distSq p v = Fin d)"
  unfolding distSq_def Let_def by (intro jadd_nonneg_cases jmul_self_cases)

lemma jlt_distSq_Fin:
  assumes "jlt (distSq p v) B"
  shows "\<exists>d. 0 \<le> d \<and> distSq p v = Fin d"
  using distSq_cases [of p v] assms by auto





lemma distSq_vec_y [simp]: "distSq p (v\<lparr>vec_y := h\<rparr>) = distSq p v"
  by (simp add: distSq_def)

lemma distSq_brushVertex [simp]: "distSq p (brushVertex store b q v) = distSq p v"
  by (simp add: brushVertex_def)

lemma vec_x_brushVertex [simp]: "vec_x (brushVertex store b p v) = vec_x v"
  by (simp add: brushVertex_def)

lemma vec_z_brushVertex [simp]: "vec_z (brushVertex store b p v) = vec_z v"
  by (simp add: brushVertex_def)

lemma brushVertex_commute:
  "brushVertex unrounded b1 p1 (brushVertex unrounded b2 p2 v)
     = brushVertex unrounded b2 p2 (brushVertex unrounded b1 p1 v)"
  by (simp add: brushVertex_def unrounded_def jadd_right_commute)


lemma brushVertex_nonfinite_point:
  assumes "\<not> is_finite (vec_x p) \<or> \<not> is_finite (vec_z p)"
  shows "brushVertex store b p v = v"
proof -
  have "distSq p v = NaN \<or> distSq p v = PInf"
    using assms
    by (cases "vec_x p"; cases "vec_z p"; cases "vec_x v"; cases "vec_z v")
       (simp_all add: distSq_def jsub_def)
  then show ?thesis by (auto simp: brushVertex_def)
qed

lemma brushVertex_neg_size:
  "brushVertex store (b\<lparr>size_brush := Fin (- R)\<rparr>) p v = brushVertex store (b\<lparr>size_brush := Fin R\<rparr>) p v"
proof (cases "jlt (distSq p v) (Fin (R * R))")
  case True
  obtain d where d: "0 \<le> d" "distSq p v = Fin d"
    using jlt_distSq_Fin [OF True] by blast
  with True have "R \<noteq> 0" by auto
  then have "falloff (b\<lparr>size_brush := Fin (- R)\<rparr>) (Fin d) = falloff (b\<lparr>size_brush := Fin R\<rparr>) (Fin d)"
    using d by (simp add: falloff_def)
  then show ?thesis
    using d by (simp add: brushVertex_def brushSizeSq_def displacement_def)
next
  case False
  then show ?thesis by (simp add: brushVertex_def brushSizeSq_def)
qed

lemma brushLoop_neg_size:
  "brushLoop store (brush\<lparr>size_brush := Fin (- R)\<rparr>) p 0 ps = brushLoop store (brush\<lparr>size_brush := Fin R\<rparr>) p 0 ps"
  by (simp add: brushLoop_map brushVertex_neg_size)




lemma initialBrush_centre:
  "brushVertex store initialBrush \<lparr>vec_x = Fin 0, vec_y = Fin 0, vec_z = Fin 0\<rparr>
     \<lparr>vec_x = Fin 0, vec_y = Fin 0, vec_z = Fin 0\<rparr>
     = \<lparr>vec_x = Fin 0, vec_y = store (Fin (1 / 2)), vec_z = Fin 0\<rparr>"
  by (simp add: brushVertex_def initialBrush_def distSq_def jsub_def brushSizeSq_def
        displacement_def falloff_def)

lemma initialBrush_edge:
  "brushVertex store initialBrush \<lparr>vec_x = Fin 0, vec_y = Fin 0, vec_z = Fin 0\<rparr>
     \<lparr>vec_x = Fin 5, vec_y = Fin 0, vec_z = Fin 0\<rparr>
     = \<lparr>vec_x = Fin 5, vec_y = Fin 0, vec_z = Fin 0\<rparr>"
  by (simp add: brushVertex_def initialBrush_def distSq_def jsub_def brushSizeSq_def)

lemma initialBrush_halfway:
  "brushVertex store initialBrush \<lparr>vec_x = Fin 0, vec_y = Fin 0, vec_z = Fin 0\<rparr>
     \<lparr>vec_x = Fin (5 / 2), vec_y = Fin 0, vec_z = Fin 0\<rparr>
     = \<lparr>vec_x = Fin (5 / 2), vec_y = store (Fin (1 / 4)), vec_z = Fin 0\<rparr>"
proof -
  have "cos (pi / 2) = 0" by simp
  then show ?thesis
    by (simp add: brushVertex_def initialBrush_def distSq_def jsub_def brushSizeSq_def
          displacement_def falloff_def sqrt_25_4)
qed

section \<open>The lattice of the plane\<close>

lemma length_PlaneGeometry: "length (PlaneGeometry s n) = (n + 1) * (n + 1)"
  by (simp add: PlaneGeometry_def)

lemma nth_map_upt0: "i < N \<Longrightarrow> map f [0 ..< N] ! i = f i"
  by simp

lemma nth_PlaneGeometry:
  assumes "i < (n + 1) * (n + 1)" and "n \<noteq> 0"
  shows "PlaneGeometry (Fin S) n ! i =
           \<lparr>vec_x = Fin (real (i mod (n + 1)) * (S / real n) - S / 2),
            vec_y = Fin 0,
            vec_z = Fin (real (i div (n + 1)) * (S / real n) - S / 2)\<rparr>"
proof -
  have "PlaneGeometry (Fin S) n ! i =
          (let row = i div (n + 1);
               col = i mod (n + 1);
               segment_width = jdiv (Fin S) (Fin (real n));
               size_half = jdiv (Fin S) (Fin 2)
           in \<lparr>vec_x = jsub (jmul (Fin (real col)) segment_width) size_half,
               vec_y = Fin 0,
               vec_z = jsub (jmul (Fin (real row)) segment_width) size_half\<rparr>)"
    unfolding PlaneGeometry_def using assms(1) by (rule nth_map_upt0)
  also have "\<dots> = \<lparr>vec_x = Fin (real (i mod (n + 1)) * (S / real n) - S / 2),
            vec_y = Fin 0,
            vec_z = Fin (real (i div (n + 1)) * (S / real n) - S / 2)\<rparr>"
    using assms(2) by (simp add: Let_def jsub_def)
  finally show ?thesis .
qed

lemma terrain_grid_columns:
  assumes "v \<in> set (PlaneGeometry TERRAIN_SIZE TERRAIN_SEGMENTS)"
  shows "\<exists>c::nat. vec_x v = Fin (real c * (100 / 128) - 50)"
proof -
  obtain i where i: "i < (128 + 1) * (128 + 1)" and v: "v = PlaneGeometry (Fin 100) 128 ! i"
    using assms
    by (auto simp: in_set_conv_nth length_PlaneGeometry TERRAIN_SIZE_def TERRAIN_SEGMENTS_def)
  have "vec_x v = Fin (real (i mod (128 + 1)) * (100 / real 128) - 100 / 2)"
    unfolding v by (subst nth_PlaneGeometry [OF i]) simp_all
  then have "vec_x v = Fin (real (i mod (128 + 1)) * (100 / 128) - 50)" by simp
  then show ?thesis by blast
qed

lemma terrain_grid_misses:
  assumes "v \<in> set (PlaneGeometry TERRAIN_SIZE TERRAIN_SEGMENTS)"
  shows "vec_x v \<noteq> Fin 5" and "vec_x v \<noteq> Fin (5 / 2)"
proof -
  obtain c :: nat where c: "vec_x v = Fin (real c * (100 / 128) - 50)"
    using terrain_grid_columns [OF assms] by blast
  show "vec_x v \<noteq> Fin 5"
  proof
    assume "vec_x v = Fin 5"
    with c have "real c * (100 / 128) - 50 = 5" by simp
    then have "real c * 100 = 7040" by simp
    then have "real (c * 100) = real 7040" by simp
    then have "c * 100 = 7040" by (simp only: of_nat_eq_iff)
    then show False by presburger
  qed
  show "vec_x v \<noteq> Fin (5 / 2)"
  proof
    assume "vec_x v = Fin (5 / 2)"
    with c have "real c * (100 / 128) - 50 = 5 / 2" by simp
    then have "real c * 100 = 6720" by simp
    then have "real (c * 100) = real 6720" by simp
    then have "c * 100 = 6720" by (simp only: of_nat_eq_iff)
    then show False by presburger
  qed
qed






section \<open>Whole strokes and generation\<close>














section \<open>The normals of the lattice\<close>









section \<open>A small brush near a vertex\<close>



section \<open>The properties of the specification\<close>

subsection \<open>The scenario of the initial brush on the flat terrain\<close>

text \<open>
  Claim C1, as the code has it, with the heights stored unrounded or as 32-bit floats.
  The scenario applies the brush of size 5, strength 0.5 and direction up at \<open>(0, 0)\<close>
  to the flat lattice of 129 by 129 vertices spanning \<open>[-50, 50]\<close> in both directions.
  The vertex at \<open>(0, 0)\<close> has the flat index \<open>64 * 129 + 64 = 8320\<close> and ends at height
  0.5. The lattice has a spacing of \<open>100 / 128\<close>, so none of its vertices has
  \<open>x = 5\<close> or \<open>x = 2.5\<close>. In any position buffer, a vertex at \<open>(5, 0)\<close> of height 0
  lies on the edge of the footprint and keeps its height, and a vertex at \<open>(2.5, 0)\<close> of
  height 0 ends at \<open>0.5 * (cos (pi / 2) + 1) / 2 = 0.25\<close>.
\<close>

theorem scenario_amended:
  assumes "store = unrounded \<or> store = fround"
  shows "PlaneGeometry TERRAIN_SIZE TERRAIN_SEGMENTS ! 8320 = \<lparr>vec_x = Fin 0, vec_y = Fin 0, vec_z = Fin 0\<rparr>
   \<and> positionsOf (modifyTerrain store cvn initialBrush
         \<lparr>point = Some \<lparr>vec_x = Fin 0, vec_y = Fin 0, vec_z = Fin 0\<rparr>\<rparr>
         (Some \<lparr>position = Some (PlaneGeometry TERRAIN_SIZE TERRAIN_SEGMENTS), normal = n\<rparr>)) ! 8320
       = \<lparr>vec_x = Fin 0, vec_y = Fin (1 / 2), vec_z = Fin 0\<rparr>
   \<and> (\<forall>v \<in> set (PlaneGeometry TERRAIN_SIZE TERRAIN_SEGMENTS).
         vec_x v \<noteq> Fin 5 \<and> vec_x v \<noteq> Fin (5 / 2))
   \<and> (\<forall>st i. i < length (positionsOf st)
         \<and> positionsOf st ! i = \<lparr>vec_x = Fin 5, vec_y = Fin 0, vec_z = Fin 0\<rparr> \<longrightarrow>
         positionsOf (modifyTerrain store cvn initialBrush
           \<lparr>point = Some \<lparr>vec_x = Fin 0, vec_y = Fin 0, vec_z = Fin 0\<rparr>\<rparr> st) ! i
           = \<lparr>vec_x = Fin 5, vec_y = Fin 0, vec_z = Fin 0\<rparr>)
   \<and> (\<forall>st i. i < length (positionsOf st)
         \<and> positionsOf st ! i = \<lparr>vec_x = Fin (5 / 2), vec_y = Fin 0, vec_z = Fin 0\<rparr> \<longrightarrow>
         positionsOf (modifyTerrain store cvn initialBrush
           \<lparr>point = Some \<lparr>vec_x = Fin 0, vec_y = Fin 0, vec_z = Fin 0\<rparr>\<rparr> st) ! i
           = \<lparr>vec_x = Fin (5 / 2), vec_y = Fin (1 / 4), vec_z = Fin 0\<rparr>)"
proof -
  have half: "store (Fin (1 / 2)) = Fin (1 / 2)" and quarter: "store (Fin (1 / 4)) = Fin (1 / 4)"
    using assms by (auto simp: unrounded_def fround_half fround_quarter)
  have at: "PlaneGeometry TERRAIN_SIZE TERRAIN_SEGMENTS ! 8320
              = \<lparr>vec_x = Fin 0, vec_y = Fin 0, vec_z = Fin 0\<rparr>"
    unfolding TERRAIN_SIZE_def TERRAIN_SEGMENTS_def
    by (subst nth_PlaneGeometry) simp_all
  have len: "8320 < length (PlaneGeometry TERRAIN_SIZE TERRAIN_SEGMENTS)"
    by (simp add: length_PlaneGeometry TERRAIN_SEGMENTS_def)
  have centre: "positionsOf (modifyTerrain store cvn initialBrush
         \<lparr>point = Some \<lparr>vec_x = Fin 0, vec_y = Fin 0, vec_z = Fin 0\<rparr>\<rparr>
         (Some \<lparr>position = Some (PlaneGeometry TERRAIN_SIZE TERRAIN_SEGMENTS), normal = n\<rparr>)) ! 8320
       = \<lparr>vec_x = Fin 0, vec_y = Fin (1 / 2), vec_z = Fin 0\<rparr>"
    using len by (simp add: positionsOf_modifyTerrain positionsOf_Some at initialBrush_centre half)
  have misses: "\<forall>v \<in> set (PlaneGeometry TERRAIN_SIZE TERRAIN_SEGMENTS).
         vec_x v \<noteq> Fin 5 \<and> vec_x v \<noteq> Fin (5 / 2)"
    using terrain_grid_misses by blast
  have edge: "positionsOf (modifyTerrain store cvn initialBrush
           \<lparr>point = Some \<lparr>vec_x = Fin 0, vec_y = Fin 0, vec_z = Fin 0\<rparr>\<rparr> st) ! i
           = \<lparr>vec_x = Fin 5, vec_y = Fin 0, vec_z = Fin 0\<rparr>"
    if "i < length (positionsOf st)
         \<and> positionsOf st ! i = \<lparr>vec_x = Fin 5, vec_y = Fin 0, vec_z = Fin 0\<rparr>"
    for st :: "'a meshRef" and i
    using that by (simp add: positionsOf_modifyTerrain initialBrush_edge)
  have halfway: "positionsOf (modifyTerrain store cvn initialBrush
           \<lparr>point = Some \<lparr>vec_x = Fin 0, vec_y = Fin 0, vec_z = Fin 0\<rparr>\<rparr> st) ! i
           = \<lparr>vec_x = Fin (5 / 2), vec_y = Fin (1 / 4), vec_z = Fin 0\<rparr>"
    if "i < length (positionsOf st)
         \<and> positionsOf st ! i = \<lparr>vec_x = Fin (5 / 2), vec_y = Fin 0, vec_z = Fin 0\<rparr>"
    for st :: "'a meshRef" and i
    using that by (simp add: positionsOf_modifyTerrain initialBrush_halfway quarter)
  show ?thesis
    using at centre misses edge halfway by blast
qed

text \<open>
  An instance with 32-bit storage: the lattice of 41 by 41 vertices over the same extent
  has a spacing of 2.5, and there the vertices of index 842 and 841 are at \<open>(5, 0)\<close> and
  \<open>(2.5, 0)\<close>.
\<close>

theorem scenario_amended_witness:
  "PlaneGeometry TERRAIN_SIZE TERRAIN_SEGMENTS ! 8320 \<in> set (PlaneGeometry TERRAIN_SIZE TERRAIN_SEGMENTS)
   \<and> vec_x (PlaneGeometry TERRAIN_SIZE TERRAIN_SEGMENTS ! 8320) \<noteq> Fin 5
   \<and> positionsOf (modifyTerrain fround (\<lambda>ps. ()) initialBrush \<lparr>point = Some \<lparr>vec_x = Fin 0, vec_y = Fin 0, vec_z = Fin 0\<rparr>\<rparr> (Some \<lparr>position = Some (PlaneGeometry TERRAIN_SIZE TERRAIN_SEGMENTS), normal = ()\<rparr>)) ! 8320
       = \<lparr>vec_x = Fin 0, vec_y = Fin (1 / 2), vec_z = Fin 0\<rparr>
   \<and> 842 < length (positionsOf (Some \<lparr>position = Some (PlaneGeometry TERRAIN_SIZE 40), normal = ()\<rparr>))
   \<and> positionsOf (Some \<lparr>position = Some (PlaneGeometry TERRAIN_SIZE 40), normal = ()\<rparr>) ! 842 = \<lparr>vec_x = Fin 5, vec_y = Fin 0, vec_z = Fin 0\<rparr>
   \<and> positionsOf (modifyTerrain fround (\<lambda>ps. ()) initialBrush \<lparr>point = Some \<lparr>vec_x = Fin 0, vec_y = Fin 0, vec_z = Fin 0\<rparr>\<rparr> (Some \<lparr>position = Some (PlaneGeometry TERRAIN_SIZE 40), normal = ()\<rparr>)) ! 842 = \<lparr>vec_x = Fin 5, vec_y = Fin 0, vec_z = Fin 0\<rparr>
   \<and> 841 < length (positionsOf (Some \<lparr>position = Some (PlaneGeometry TERRAIN_SIZE 40), normal = ()\<rparr>))
   \<and> positionsOf (Some \<lparr>position = Some (PlaneGeometry TERRAIN_SIZE 40), normal = ()\<rparr>) ! 841 = \<lparr>vec_x = Fin (5 / 2), vec_y = Fin 0, vec_z = Fin 0\<rparr>
   \<and> positionsOf (modifyTerrain fround (\<lambda>ps. ()) initialBrush \<lparr>point = Some \<lparr>vec_x = Fin 0, vec_y = Fin 0, vec_z = Fin 0\<rparr>\<rparr> (Some \<lparr>position = Some (PlaneGeometry TERRAIN_SIZE 40), normal = ()\<rparr>)) ! 841 = \<lparr>vec_x = Fin (5 / 2), vec_y = Fin (1 / 4), vec_z = Fin 0\<rparr>"
proof -
  have "fround = unrounded \<or> fround = fround" by simp
  note inst = scenario_amended [OF this, of "\<lambda>ps. ()" "()"]
  have len: "length (positionsOf (Some \<lparr>position = Some (PlaneGeometry TERRAIN_SIZE 40), normal = ()\<rparr>)) = 1681"
    by (simp add: positionsOf_Some length_PlaneGeometry)
  have at5: "positionsOf (Some \<lparr>position = Some (PlaneGeometry TERRAIN_SIZE 40), normal = ()\<rparr>) ! 842 = \<lparr>vec_x = Fin 5, vec_y = Fin 0, vec_z = Fin 0\<rparr>"
    unfolding positionsOf_Some TERRAIN_SIZE_def
    by (subst nth_PlaneGeometry) simp_all
  have at25: "positionsOf (Some \<lparr>position = Some (PlaneGeometry TERRAIN_SIZE 40), normal = ()\<rparr>) ! 841 = \<lparr>vec_x = Fin (5 / 2), vec_y = Fin 0, vec_z = Fin 0\<rparr>"
    unfolding positionsOf_Some TERRAIN_SIZE_def
    by (subst nth_PlaneGeometry) simp_all
  have mem: "PlaneGeometry TERRAIN_SIZE TERRAIN_SEGMENTS ! 8320 \<in> set (PlaneGeometry TERRAIN_SIZE TERRAIN_SEGMENTS)"
    by (rule nth_mem) (simp add: length_PlaneGeometry TERRAIN_SEGMENTS_def)
  from inst mem have ne: "vec_x (PlaneGeometry TERRAIN_SIZE TERRAIN_SEGMENTS ! 8320) \<noteq> Fin 5"
    by blast
  from inst have centre: "positionsOf (modifyTerrain fround (\<lambda>ps. ()) initialBrush \<lparr>point = Some \<lparr>vec_x = Fin 0, vec_y = Fin 0, vec_z = Fin 0\<rparr>\<rparr> (Some \<lparr>position = Some (PlaneGeometry TERRAIN_SIZE TERRAIN_SEGMENTS), normal = ()\<rparr>)) ! 8320
       = \<lparr>vec_x = Fin 0, vec_y = Fin (1 / 2), vec_z = Fin 0\<rparr>"
    by blast
  from inst have "842 < length (positionsOf (Some \<lparr>position = Some (PlaneGeometry TERRAIN_SIZE 40), normal = ()\<rparr>)) \<and> positionsOf (Some \<lparr>position = Some (PlaneGeometry TERRAIN_SIZE 40), normal = ()\<rparr>) ! 842 = \<lparr>vec_x = Fin 5, vec_y = Fin 0, vec_z = Fin 0\<rparr> \<longrightarrow>
      positionsOf (modifyTerrain fround (\<lambda>ps. ()) initialBrush \<lparr>point = Some \<lparr>vec_x = Fin 0, vec_y = Fin 0, vec_z = Fin 0\<rparr>\<rparr> (Some \<lparr>position = Some (PlaneGeometry TERRAIN_SIZE 40), normal = ()\<rparr>)) ! 842 = \<lparr>vec_x = Fin 5, vec_y = Fin 0, vec_z = Fin 0\<rparr>"
    by blast
  then have edge: "positionsOf (modifyTerrain fround (\<lambda>ps. ()) initialBrush \<lparr>point = Some \<lparr>vec_x = Fin 0, vec_y = Fin 0, vec_z = Fin 0\<rparr>\<rparr> (Some \<lparr>position = Some (PlaneGeometry TERRAIN_SIZE 40), normal = ()\<rparr>)) ! 842 = \<lparr>vec_x = Fin 5, vec_y = Fin 0, vec_z = Fin 0\<rparr>"
    using len at5 by simp
  from inst have "841 < length (positionsOf (Some \<lparr>position = Some (PlaneGeometry TERRAIN_SIZE 40), normal = ()\<rparr>)) \<and> positionsOf (Some \<lparr>position = Some (PlaneGeometry TERRAIN_SIZE 40), normal = ()\<rparr>) ! 841 = \<lparr>vec_x = Fin (5 / 2), vec_y = Fin 0, vec_z = Fin 0\<rparr> \<longrightarrow>
      positionsOf (modifyTerrain fround (\<lambda>ps. ()) initialBrush \<lparr>point = Some \<lparr>vec_x = Fin 0, vec_y = Fin 0, vec_z = Fin 0\<rparr>\<rparr> (Some \<lparr>position = Some (PlaneGeometry TERRAIN_SIZE 40), normal = ()\<rparr>)) ! 841 = \<lparr>vec_x = Fin (5 / 2), vec_y = Fin (1 / 4), vec_z = Fin 0\<rparr>"
    by blast
  then have halfway: "positionsOf (modifyTerrain fround (\<lambda>ps. ()) initialBrush \<lparr>point = Some \<lparr>vec_x = Fin 0, vec_y = Fin 0, vec_z = Fin 0\<rparr>\<rparr> (Some \<lparr>position = Some (PlaneGeometry TERRAIN_SIZE 40), normal = ()\<rparr>)) ! 841 = \<lparr>vec_x = Fin (5 / 2), vec_y = Fin (1 / 4), vec_z = Fin 0\<rparr>"
    using len at25 by simp
  show ?thesis
    using mem ne centre len at5 edge at25 halfway by simp
qed

text \<open>
  The scenario as the specification words it asks for three vertices of the lattice of
  129 by 129 vertices after the stroke: one at \<open>(0, 0)\<close> of height 0.5, one at
  \<open>(5, 0)\<close> of height 0 and one at \<open>(2.5, 0)\<close> of height 0.25. The last two
  do not exist.
\<close>

theorem scenario_counterexample:
  "\<not> ((\<exists>v \<in> set (positionsOf (modifyTerrain fround (\<lambda>ps. ()) initialBrush
              \<lparr>point = Some \<lparr>vec_x = Fin 0, vec_y = Fin 0, vec_z = Fin 0\<rparr>\<rparr>
              (Some \<lparr>position = Some (PlaneGeometry TERRAIN_SIZE TERRAIN_SEGMENTS), normal = ()\<rparr>))).
          vec_x v = Fin 0 \<and> vec_z v = Fin 0 \<and> vec_y v = Fin (1 / 2))
      \<and> (\<exists>v \<in> set (positionsOf (modifyTerrain fround (\<lambda>ps. ()) initialBrush
              \<lparr>point = Some \<lparr>vec_x = Fin 0, vec_y = Fin 0, vec_z = Fin 0\<rparr>\<rparr>
              (Some \<lparr>position = Some (PlaneGeometry TERRAIN_SIZE TERRAIN_SEGMENTS), normal = ()\<rparr>))).
          vec_x v = Fin 5 \<and> vec_z v = Fin 0 \<and> vec_y v = Fin 0)
      \<and> (\<exists>v \<in> set (positionsOf (modifyTerrain fround (\<lambda>ps. ()) initialBrush
              \<lparr>point = Some \<lparr>vec_x = Fin 0, vec_y = Fin 0, vec_z = Fin 0\<rparr>\<rparr>
              (Some \<lparr>position = Some (PlaneGeometry TERRAIN_SIZE TERRAIN_SEGMENTS), normal = ()\<rparr>))).
          vec_x v = Fin (5 / 2) \<and> vec_z v = Fin 0 \<and> vec_y v = Fin (1 / 4)))"
proof -
  have "vec_x v \<noteq> Fin 5"
    if "v \<in> set (positionsOf (modifyTerrain fround (\<lambda>ps. ()) initialBrush
              \<lparr>point = Some \<lparr>vec_x = Fin 0, vec_y = Fin 0, vec_z = Fin 0\<rparr>\<rparr>
              (Some \<lparr>position = Some (PlaneGeometry TERRAIN_SIZE TERRAIN_SEGMENTS), normal = ()\<rparr>)))"
    for v
  proof -
    from that obtain g where g: "g \<in> set (PlaneGeometry TERRAIN_SIZE TERRAIN_SEGMENTS)"
      and v: "v = brushVertex fround initialBrush \<lparr>vec_x = Fin 0, vec_y = Fin 0, vec_z = Fin 0\<rparr> g"
      by (auto simp: positionsOf_modifyTerrain positionsOf_Some)
    show ?thesis
      using terrain_grid_misses(1) [OF g] by (simp add: v)
  qed
  then show ?thesis by blast
qed

subsection \<open>The footprint\<close>




subsection \<open>The falloff\<close>



subsection \<open>Raising and lowering\<close>




subsection \<open>The planar layout\<close>

text \<open>
  Claim C5. After any sequence of strokes, the \<open>x\<close> and the \<open>z\<close> of every vertex
  of the position buffer are what they were before the sequence: a stroke writes heights
  (and normals) only.
\<close>

theorem topology_invariance:
  "map vec_x (positionsOf (strokes store cvn ss st)) = map vec_x (positionsOf st)
   \<and> map vec_z (positionsOf (strokes store cvn ss st)) = map vec_z (positionsOf st)"
proof (induction ss arbitrary: st)
  case Nil
  show ?case by simp
next
  case (Cons a ss)
  obtain brush ev where a: "a = (brush, ev)" by (cases a)
  have "map vec_x (positionsOf (modifyTerrain store cvn brush ev st)) = map vec_x (positionsOf st)"
    and "map vec_z (positionsOf (modifyTerrain store cvn brush ev st)) = map vec_z (positionsOf st)"
    by (simp_all add: positionsOf_modifyTerrain comp_def split: option.splits)
  then show ?case
    using Cons.IH [of "modifyTerrain store cvn brush ev st"] by (simp add: a)
qed

subsection \<open>The normals\<close>



subsection \<open>Intersection points that are not finite\<close>

text \<open>
  Claim C7. A stroke whose intersection point has an \<open>x\<close> or a \<open>z\<close> that is NaN
  or infinite leaves the position buffer as it was; in particular heights that were
  finite stay finite.
\<close>

theorem nonfinite_point_noop:
  assumes "point ev = Some p" and "\<not> is_finite (vec_x p) \<or> \<not> is_finite (vec_z p)"
  shows "positionsOf (modifyTerrain store cvn brush ev st) = positionsOf st
       \<and> (list_all (\<lambda>v. is_finite (vec_y v)) (positionsOf st) \<longrightarrow>
            list_all (\<lambda>v. is_finite (vec_y v)) (positionsOf (modifyTerrain store cvn brush ev st)))"
proof -
  have "map (brushVertex store brush p) (positionsOf st) = map id (positionsOf st)"
    by (rule map_cong) (simp_all add: brushVertex_nonfinite_point [OF assms(2)])
  then have "positionsOf (modifyTerrain store cvn brush ev st) = positionsOf st"
    using assms(1) by (simp add: positionsOf_modifyTerrain)
  then show ?thesis by simp
qed

theorem nonfinite_point_noop_witness:
  "point \<lparr>point = Some \<lparr>vec_x = NaN, vec_y = Fin 0, vec_z = Fin 0\<rparr>\<rparr>
     = Some \<lparr>vec_x = NaN, vec_y = Fin 0, vec_z = Fin 0\<rparr>
   \<and> \<not> is_finite (vec_x \<lparr>vec_x = NaN, vec_y = Fin 0, vec_z = Fin 0\<rparr>)
   \<and> list_all (\<lambda>v. is_finite (vec_y v)) [\<lparr>vec_x = Fin 1, vec_y = Fin 3, vec_z = Fin 0\<rparr>]
   \<and> positionsOf (modifyTerrain fround (\<lambda>ps. ()) initialBrush
          \<lparr>point = Some \<lparr>vec_x = NaN, vec_y = Fin 0, vec_z = Fin 0\<rparr>\<rparr>
          (Some \<lparr>position = Some [\<lparr>vec_x = Fin 1, vec_y = Fin 3, vec_z = Fin 0\<rparr>], normal = ()\<rparr>))
     = [\<lparr>vec_x = Fin 1, vec_y = Fin 3, vec_z = Fin 0\<rparr>]
   \<and> list_all (\<lambda>v. is_finite (vec_y v)) (positionsOf (modifyTerrain fround (\<lambda>ps. ()) initialBrush
          \<lparr>point = Some \<lparr>vec_x = NaN, vec_y = Fin 0, vec_z = Fin 0\<rparr>\<rparr>
          (Some \<lparr>position = Some [\<lparr>vec_x = Fin 1, vec_y = Fin 3, vec_z = Fin 0\<rparr>], normal = ()\<rparr>)))"
  using nonfinite_point_noop [of "\<lparr>point = Some \<lparr>vec_x = NaN, vec_y = Fin 0, vec_z = Fin 0\<rparr>\<rparr>"
      "\<lparr>vec_x = NaN, vec_y = Fin 0, vec_z = Fin 0\<rparr>" fround "\<lambda>ps. ()" initialBrush
      "Some \<lparr>position = Some [\<lparr>vec_x = Fin 1, vec_y = Fin 3, vec_z = Fin 0\<rparr>], normal = ()\<rparr>"]
  by (simp add: positionsOf_def)

subsection \<open>The sign of the brush size\<close>

text \<open>
  Claim C9. For every state of the mesh, event, strength and direction, a stroke with
  brush size \<open>- R\<close> gives the same state as the stroke with brush size \<open>R\<close>.
\<close>

theorem negative_size_same:
  "modifyTerrain store cvn (brush\<lparr>size_brush := Fin (- R)\<rparr>) ev st
     = modifyTerrain store cvn (brush\<lparr>size_brush := Fin R\<rparr>) ev st"
  by (simp add: modifyTerrain_def brushLoop_neg_size split: option.splits)

subsection \<open>The order of two strokes\<close>

text \<open>
  Claim C10. The planar squared distance, and with it the footprint test and the
  displacement, do not read the height of the vertex; over exact arithmetic (heights
  stored unrounded) two strokes, whatever their brushes and events, give the same state in
  either order.
\<close>

theorem strokes_commute:
  "modifyTerrain unrounded cvn b1 e1 (modifyTerrain unrounded cvn b2 e2 st)
     = modifyTerrain unrounded cvn b2 e2 (modifyTerrain unrounded cvn b1 e1 st)
   \<and> distSq p (v\<lparr>vec_y := h\<rparr>) = distSq p v"
proof -
  have swap: "brushVertex unrounded b1 p1 \<circ> brushVertex unrounded b2 p2 = brushVertex unrounded b2 p2 \<circ> brushVertex unrounded b1 p1"
    for p1 p2
    by (rule ext) (simp add: brushVertex_commute)
  show ?thesis
    by (simp add: modifyTerrain_def brushLoop_map Let_def swap split: option.splits)
qed

end
